theory Spec2Isabelle
  imports Complex_Main
begin

section \<open>Floats\<close>

text \<open>
  A Python float is an IEEE 754 double. \<open>Finite x\<close> is the double whose value is the
  rational \<open>x\<close> (positive zero for \<open>x = 0\<close>); negative zero, the two infinities and NaN
  are values of their own. Every operation rounds its exact result to the nearest
  double, a tie to the one with the even significand: that is \<open>fl\<close>.
\<close>

datatype double = Finite rat | NegZero | PosInf | NegInf | NaN

fun bit_length :: "nat \<Rightarrow> nat" where
  "bit_length n = (if n = 0 then 0 else Suc (bit_length (n div 2)))"

declare bit_length.simps [simp del]

definition pow2 :: "int \<Rightarrow> rat" where
  "pow2 k = (if 0 \<le> k then 2 ^ nat k else 1 / 2 ^ nat (- k))"

text \<open>For \<open>0 < a\<close>, the exponent \<open>e\<close> with \<open>2 ^ e \<le> a < 2 ^ (e + 1)\<close>.\<close>

definition floor_log2 :: "rat \<Rightarrow> int" where
  "floor_log2 a =
     (if 1 \<le> a then int (bit_length (nat \<lfloor>a\<rfloor>)) - 1
      else - int (bit_length (nat (\<lceil>1 / a\<rceil> - 1))))"

definition nearest_even :: "rat \<Rightarrow> int \<Rightarrow> int" where
  "nearest_even x f =
     (if x - of_int f < 1 / 2 then f
      else if 1 / 2 < x - of_int f then f + 1
      else if even f then f else f + 1)"

definition round_half_even :: "rat \<Rightarrow> int" where
  "round_half_even x = nearest_even x \<lfloor>x\<rfloor>"

text \<open>
  Rounding \<open>x \<noteq> 0\<close> at the exponent \<open>e\<close>: the unit in the last place is
  \<open>u = 2 ^ (e - 52)\<close>, the significand \<open>m\<close> is \<open>\<bar>x\<bar> / u\<close> rounded to an integer.
  The exponent is not taken below -1022 (the subnormal range); a result of \<open>2 ^ 1024\<close>
  or more is an infinity.
\<close>

definition pack :: "rat \<Rightarrow> int \<Rightarrow> rat \<Rightarrow> int \<Rightarrow> double" where
  "pack x e u m =
     (if 1023 < e \<or> (e = 1023 \<and> m = 2 ^ 53) then (if x < 0 then NegInf else PosInf)
      else if m = 0 then (if x < 0 then NegZero else Finite 0)
      else Finite (sgn x * of_int m * u))"

definition round_to_ulp :: "rat \<Rightarrow> int \<Rightarrow> rat \<Rightarrow> double" where
  "round_to_ulp x e u = pack x e u (round_half_even (\<bar>x\<bar> / u))"

definition round_at :: "rat \<Rightarrow> int \<Rightarrow> double" where
  "round_at x e = round_to_ulp x e (pow2 (e - 52))"

definition fl :: "rat \<Rightarrow> double" where
  "fl x = (if x = 0 then Finite 0 else round_at x (max (floor_log2 \<bar>x\<bar>) (- 1022)))"

text \<open>\<^verbatim>\<open>x + y\<close> on floats.\<close>

fun fadd :: "double \<Rightarrow> double \<Rightarrow> double" where
  "fadd NaN y = NaN"
| "fadd x NaN = NaN"
| "fadd PosInf NegInf = NaN"
| "fadd NegInf PosInf = NaN"
| "fadd PosInf y = PosInf"
| "fadd NegInf y = NegInf"
| "fadd x PosInf = PosInf"
| "fadd x NegInf = NegInf"
| "fadd NegZero y = y"
| "fadd x NegZero = x"
| "fadd (Finite x) (Finite y) = (if x + y = 0 then Finite 0 else fl (x + y))"

text \<open>
  \<^verbatim>\<open>round(x, 2)\<close> on a float: the exact value of \<open>x\<close> is rounded to the nearest multiple
  \<open>n / 100\<close> of a hundredth, a tie to the even \<open>n\<close>, and the result is the float nearest
  to that decimal, with the sign of \<open>x\<close> when it is zero. Infinities and NaN round to
  themselves.
\<close>

definition cents :: "rat \<Rightarrow> int \<Rightarrow> double" where
  "cents x n = (if n = 0 then (if x < 0 then NegZero else Finite 0) else fl (of_int n / 100))"

fun py_round2 :: "double \<Rightarrow> double" where
  "py_round2 (Finite x) = cents x (round_half_even (x * 100))"
| "py_round2 d = d"

text \<open>
  The float that the decimal \<open>m \<times> 10 ^ k\<close> denotes, as \<^verbatim>\<open>float\<close> and \<^verbatim>\<open>json.loads\<close> read
  it: \<open>dec 1088 (- 3)\<close> is the float \<^verbatim>\<open>1.088\<close>.
\<close>

definition dec :: "int \<Rightarrow> int \<Rightarrow> double" where
  "dec m k = fl (of_int m * (if 0 \<le> k then 10 ^ nat k else 1 / 10 ^ nat (- k)))"

fun negate :: "double \<Rightarrow> double" where
  "negate (Finite x) = (if x = 0 then NegZero else Finite (- x))"
| "negate NegZero = Finite 0"
| "negate PosInf = NegInf"
| "negate NegInf = PosInf"
| "negate NaN = NaN"

section \<open>Values\<close>

text \<open>
  The Python values that \<^verbatim>\<open>json.loads\<close> and \<^verbatim>\<open>response.json()\<close> produce. A dict is an
  association list read with \<open>map_of\<close>. A string is the list of its code points, taken
  to lie below 256.
\<close>

datatype json =
    JNull
  | JBool bool
  | JInt int
  | JFloat double
  | JStr string
  | JArr "json list"
  | JObj "(string \<times> json) list"

text \<open>
  Exceptions. \<open>HTTPException\<close> carries the status code and the detail, one constructor
  of \<open>detail\<close> per message template of the source; \<open>Raised\<close> is any other Python
  exception, by class name.
\<close>

datatype detail =
    MissingApiKey
  | DownloadFailed string string
  | UnsupportedFileType string
  | LLMApiError "string + json"
  | LLMInvalidStructure string
  | RetriesExhausted
  | Uncaught string

datatype exn =
    HTTPException nat detail
  | Raised string

section \<open>Pydantic schema\<close>

record BillItem =
  item_name :: string
  item_amount :: double
  item_rate :: double
  item_quantity :: double

record PagewiseLineItem =
  page_no :: string
  page_type :: string
  bill_items :: "BillItem list"

record LLMExtractionOutput =
  pagewise_line_items :: "PagewiseLineItem list"
  document_final_total :: double

record TokenUsage =
  total_tokens :: int
  input_tokens :: int
  output_tokens :: int

record ExtractionData =
  data_pagewise_line_items :: "PagewiseLineItem list"
  final_total_extracted :: double
  total_item_count :: int
  sub_total_extracted :: "double option"

record ExtractionResponse =
  is_success :: bool
  token_usage :: TokenUsage
  data :: ExtractionData

subsection \<open>Text read as a float\<close>

text \<open>
  Pydantic (version 2, whose \<^verbatim>\<open>model_json_schema\<close> the source calls) reads a string for a
  \<^verbatim>\<open>float\<close> field in two tries. First the string is trimmed of surrounding white space
  and parsed by this grammar, letters in either case:
  an optional sign, then \<^verbatim>\<open>inf\<close>, \<^verbatim>\<open>infinity\<close>, \<^verbatim>\<open>nan\<close> or a number; a number is digits
  with an optional point (at least one digit before or after it) and an optional exponent
  \<^verbatim>\<open>e\<close>, sign, digits. If that fails and the untrimmed string has underscores, none
  first, last or doubled, they are removed and the rest is parsed again.
\<close>

definition is_digit :: "char \<Rightarrow> bool" where
  "is_digit c = (c \<in> set ''0123456789'')"

definition digit_val :: "char \<Rightarrow> nat" where
  "digit_val c = of_char c - 48"

definition digits_val :: "string \<Rightarrow> nat" where
  "digits_val ds = foldl (\<lambda>n c. 10 * n + digit_val c) 0 ds"

definition is_space :: "char \<Rightarrow> bool" where
  "is_space c =
     (c \<in> set [CHR 0x09, CHR 0x0A, CHR 0x0B, CHR 0x0C, CHR 0x0D, CHR 0x20, CHR 0x85, CHR 0xA0])"

definition trim :: "string \<Rightarrow> string" where
  "trim s = rev (dropWhile is_space (rev (dropWhile is_space s)))"

definition lower :: "char \<Rightarrow> char" where
  "lower c =
     (case map_of (zip ''ABCDEFGHIJKLMNOPQRSTUVWXYZ'' ''abcdefghijklmnopqrstuvwxyz'') c of
        None \<Rightarrow> c
      | Some l \<Rightarrow> l)"

fun split_sign :: "string \<Rightarrow> bool \<times> string" where
  "split_sign [] = (False, [])"
| "split_sign (c # t) =
     (if c = CHR ''-'' then (True, t) else if c = CHR ''+'' then (False, t) else (False, c # t))"

fun parse_exponent :: "string \<Rightarrow> int option" where
  "parse_exponent [] = Some 0"
| "parse_exponent (c # t) =
     (if lower c = CHR ''e'' then
        (case split_sign t of
           (neg, ds) \<Rightarrow>
             if ds \<noteq> [] \<and> list_all is_digit ds
             then Some (if neg then - int (digits_val ds) else int (digits_val ds))
             else None)
      else None)"

fun split_point :: "string \<Rightarrow> string \<times> string" where
  "split_point [] = ([], [])"
| "split_point (c # t) =
     (if c = CHR ''.'' then (takeWhile is_digit t, dropWhile is_digit t) else ([], c # t))"

definition parse_number :: "string \<Rightarrow> double option" where
  "parse_number s =
     (case split_point (dropWhile is_digit s) of
        (fp, rest) \<Rightarrow>
          if takeWhile is_digit s = [] \<and> fp = [] then None
          else
            (case parse_exponent rest of
               None \<Rightarrow> None
             | Some ex \<Rightarrow>
                 Some (dec (int (digits_val (takeWhile is_digit s @ fp))) (ex - int (length fp)))))"

definition parse_float :: "string \<Rightarrow> double option" where
  "parse_float s =
     (case split_sign s of
        (neg, body) \<Rightarrow>
          if map lower body = ''inf'' \<or> map lower body = ''infinity''
          then Some (if neg then NegInf else PosInf)
          else if map lower body = ''nan'' then Some NaN
          else map_option (if neg then negate else id) (parse_number body))"

definition strip_underscores :: "string \<Rightarrow> string option" where
  "strip_underscores s =
     (if CHR ''_'' \<notin> set s then None
      else if hd s = CHR ''_'' \<or> last s = CHR ''_''
              \<or> list_ex (\<lambda>(a, b). a = CHR ''_'' \<and> b = CHR ''_'') (zip s (tl s))
      then None
      else Some (filter (\<lambda>c. c \<noteq> CHR ''_'') s))"

definition str_as_float :: "string \<Rightarrow> double option" where
  "str_as_float s =
     (case parse_float (trim s) of
        Some d \<Rightarrow> Some d
      | None \<Rightarrow> (case strip_underscores s of None \<Rightarrow> None | Some t \<Rightarrow> parse_float t))"

subsection \<open>Validation of a field\<close>

text \<open>
  Pydantic validates in its default (lax) mode: no model of the source sets
  \<^verbatim>\<open>strict\<close>. A \<^verbatim>\<open>str\<close> field takes a string only. A \<^verbatim>\<open>float\<close> field takes a float
  as it is, an int that converts to a float without overflow, a bool, and a string that
  reads as a float.
\<close>

fun validate_str :: "json \<Rightarrow> string option" where
  "validate_str (JStr s) = Some s"
| "validate_str _ = None"

fun finite_or_none :: "double \<Rightarrow> double option" where
  "finite_or_none PosInf = None"
| "finite_or_none NegInf = None"
| "finite_or_none d = Some d"

fun validate_float :: "json \<Rightarrow> double option" where
  "validate_float (JFloat d) = Some d"
| "validate_float (JInt n) = finite_or_none (fl (of_int n))"
| "validate_float (JBool b) = Some (if b then Finite 1 else Finite 0)"
| "validate_float (JStr s) = str_as_float s"
| "validate_float _ = None"

text \<open>A required field (\<^verbatim>\<open>Field(...)\<close>): the key must be there and its value must validate.\<close>

definition required :: "(string \<times> json) list \<Rightarrow> string \<Rightarrow> (json \<Rightarrow> 'a option) \<Rightarrow> 'a option" where
  "required kv k v = (case map_of kv k of None \<Rightarrow> None | Some x \<Rightarrow> v x)"

fun validate_list :: "(json \<Rightarrow> 'a option) \<Rightarrow> json list \<Rightarrow> 'a list option" where
  "validate_list v [] = Some []"
| "validate_list v (x # xs) =
     (case v x of
        None \<Rightarrow> None
      | Some y \<Rightarrow> (case validate_list v xs of None \<Rightarrow> None | Some ys \<Rightarrow> Some (y # ys)))"

subsection \<open>Validation of the models\<close>

fun validate_BillItem :: "json \<Rightarrow> BillItem option" where
  "validate_BillItem (JObj kv) =
     (case required kv ''item_name'' validate_str of None \<Rightarrow> None | Some n \<Rightarrow>
     (case required kv ''item_amount'' validate_float of None \<Rightarrow> None | Some a \<Rightarrow>
     (case required kv ''item_rate'' validate_float of None \<Rightarrow> None | Some r \<Rightarrow>
     (case required kv ''item_quantity'' validate_float of None \<Rightarrow> None | Some q \<Rightarrow>
        Some \<lparr>item_name = n, item_amount = a, item_rate = r, item_quantity = q\<rparr>))))"
| "validate_BillItem _ = None"

fun validate_bill_items :: "json \<Rightarrow> BillItem list option" where
  "validate_bill_items (JArr xs) = validate_list validate_BillItem xs"
| "validate_bill_items _ = None"

fun validate_PagewiseLineItem :: "json \<Rightarrow> PagewiseLineItem option" where
  "validate_PagewiseLineItem (JObj kv) =
     (case required kv ''page_no'' validate_str of None \<Rightarrow> None | Some n \<Rightarrow>
     (case required kv ''page_type'' validate_str of None \<Rightarrow> None | Some t \<Rightarrow>
     (case required kv ''bill_items'' validate_bill_items of None \<Rightarrow> None | Some its \<Rightarrow>
        Some \<lparr>page_no = n, page_type = t, bill_items = its\<rparr>)))"
| "validate_PagewiseLineItem _ = None"

fun validate_pages :: "json \<Rightarrow> PagewiseLineItem list option" where
  "validate_pages (JArr xs) = validate_list validate_PagewiseLineItem xs"
| "validate_pages _ = None"

text \<open>
  \<^verbatim>\<open>LLMExtractionOutput(**d)\<close>: unpacking a value that is not a dict raises TypeError,
  a dict that does not validate raises ValidationError.
\<close>

fun validate_LLMExtractionOutput :: "json \<Rightarrow> exn + LLMExtractionOutput" where
  "validate_LLMExtractionOutput (JObj kv) =
     (case required kv ''pagewise_line_items'' validate_pages of
        None \<Rightarrow> Inl (Raised ''ValidationError'')
      | Some ps \<Rightarrow>
     (case required kv ''document_final_total'' validate_float of
        None \<Rightarrow> Inl (Raised ''ValidationError'')
      | Some t \<Rightarrow> Inr \<lparr>pagewise_line_items = ps, document_final_total = t\<rparr>))"
| "validate_LLMExtractionOutput _ = Inl (Raised ''TypeError'')"

section \<open>Aggregation\<close>

text \<open>
  The inner loop over \<^verbatim>\<open>page.bill_items\<close>: the state is (page_sum, cumulative_item_count),
  and \<^verbatim>\<open>page_sum += item.item_amount\<close> is a float addition.
\<close>

fun item_loop :: "BillItem list \<Rightarrow> double \<times> int \<Rightarrow> double \<times> int" where
  "item_loop [] st = st"
| "item_loop (item # items) (page_sum, cumulative_item_count) =
     item_loop items (fadd page_sum (item_amount item), cumulative_item_count + 1)"

text \<open>
  The outer loop over \<^verbatim>\<open>extracted_data.pagewise_line_items\<close>: the state is
  (cumulative_extracted_total, cumulative_item_count, pagewise_output); each page starts
  its \<^verbatim>\<open>page_sum\<close> at \<^verbatim>\<open>0.0\<close>.
\<close>

fun page_loop ::
  "PagewiseLineItem list \<Rightarrow> double \<times> int \<times> PagewiseLineItem list
     \<Rightarrow> double \<times> int \<times> PagewiseLineItem list" where
  "page_loop [] st = st"
| "page_loop (page # pages) (cumulative_extracted_total, cumulative_item_count, pagewise_output) =
     (case item_loop (bill_items page) (Finite 0, cumulative_item_count) of
        (page_sum, cumulative_item_count') \<Rightarrow>
          page_loop pages
            (fadd cumulative_extracted_total page_sum, cumulative_item_count',
             pagewise_output @ [page]))"

text \<open>Steps 2 and 3 of \<^verbatim>\<open>extract_bill_data\<close>: the loops, then the response.\<close>

definition build_response :: "LLMExtractionOutput \<Rightarrow> TokenUsage \<Rightarrow> ExtractionResponse" where
  "build_response extracted_data token_usage_counts =
     (case page_loop (pagewise_line_items extracted_data) (Finite 0, 0, []) of
        (cumulative_extracted_total, cumulative_item_count, pagewise_output) \<Rightarrow>
          \<lparr>is_success = True,
           token_usage = token_usage_counts,
           data = \<lparr>data_pagewise_line_items = pagewise_output,
                   final_total_extracted = py_round2 cumulative_extracted_total,
                   total_item_count = cumulative_item_count,
                   sub_total_extracted = None\<rparr>\<rparr>)"

text \<open>
  The output of \<^verbatim>\<open>extract_data_with_llm\<close>: the dict with the keys
  \<^verbatim>\<open>extracted_data\<close> and \<^verbatim>\<open>token_usage\<close>.
\<close>

record llm_output =
  extracted_data :: json
  llm_token_usage :: TokenUsage

text \<open>Lines 186 to 219: validation, aggregation and the response.\<close>

definition process_llm_output :: "llm_output \<Rightarrow> exn + ExtractionResponse" where
  "process_llm_output out =
     (case validate_LLMExtractionOutput (extracted_data out) of
        Inl e \<Rightarrow> Inl e
      | Inr d \<Rightarrow> Inr (build_response d (llm_token_usage out)))"

text \<open>
  The two handlers of \<^verbatim>\<open>extract_bill_data\<close>: an HTTPException is raised again, any
  other exception becomes a 500 that names its class.
\<close>

fun to_http :: "exn \<Rightarrow> exn" where
  "to_http (HTTPException s d) = HTTPException s d"
| "to_http (Raised cls) = HTTPException 500 (Uncaught cls)"

section \<open>The environment\<close>

text \<open>
  What the service reads from outside: the configured key, the document store, the model
  service and the library functions whose results the source only passes on. The outcome
  of the n-th POST of a request is \<open>http_post env n\<close>.
\<close>

record get_response =
  get_status_code :: nat
  content_type_header :: "string option"
  content :: string

datatype get_outcome =
    GetRaises string
  | GetReturns get_response

text \<open>
  The usage metadata of the model service, when it is there, is an object whose counts,
  when they are there, are integers. The body of a response, when it is JSON, is an
  object, read at the three keys the source reads.
\<close>

record usage_metadata =
  promptTokenCount :: "int option"
  candidatesTokenCount :: "int option"

record api_body =
  candidates :: "json option"
  usageMetadata :: "usage_metadata option"
  error :: "json option"

record post_response =
  status_code :: nat
  json_body :: "api_body option"

datatype post_outcome =
    PostRaises string
  | PostReturns post_response

record env =
  API_KEY :: string
  http_get :: "string \<Rightarrow> get_outcome"
  http_post :: "nat \<Rightarrow> post_outcome"
  json_parse :: "string \<Rightarrow> json option"
  b64encode :: "string \<Rightarrow> string"

record payload =
  text_part :: string
  mimeType :: string
  inline_data :: string
  responseSchema :: json

datatype event =
    EvGet string
  | EvPost payload
  | EvSleep nat

section \<open>Python operations\<close>

definition startswith :: "string \<Rightarrow> string \<Rightarrow> bool" where
  "startswith s p = (take (length p) s = p)"

text \<open>\<^verbatim>\<open>x[k]\<close> with a string key and \<^verbatim>\<open>x[0]\<close>, on a value read from JSON.\<close>

fun getitem_key :: "string \<Rightarrow> json \<Rightarrow> exn + json" where
  "getitem_key k (JObj kv) =
     (case map_of kv k of None \<Rightarrow> Inl (Raised ''KeyError'') | Some v \<Rightarrow> Inr v)"
| "getitem_key k _ = Inl (Raised ''TypeError'')"

fun getitem_0 :: "json \<Rightarrow> exn + json" where
  "getitem_0 (JArr []) = Inl (Raised ''IndexError'')"
| "getitem_0 (JArr (x # xs)) = Inr x"
| "getitem_0 (JStr []) = Inl (Raised ''IndexError'')"
| "getitem_0 (JStr (c # cs)) = Inr (JStr [c])"
| "getitem_0 (JObj kv) = Inl (Raised ''KeyError'')"
| "getitem_0 _ = Inl (Raised ''TypeError'')"

text \<open>\<^verbatim>\<open>x.get(k, default)\<close>: a value that is not a dict has no \<^verbatim>\<open>get\<close>.\<close>

fun dict_get :: "string \<Rightarrow> json \<Rightarrow> json \<Rightarrow> exn + json" where
  "dict_get k dflt (JObj kv) = (case map_of kv k of None \<Rightarrow> Inr dflt | Some v \<Rightarrow> Inr v)"
| "dict_get k dflt _ = Inl (Raised ''AttributeError'')"

text \<open>\<^verbatim>\<open>json.loads(x)\<close>: an argument that is not a string raises TypeError.\<close>

fun json_loads :: "(string \<Rightarrow> json option) \<Rightarrow> json \<Rightarrow> exn + json" where
  "json_loads parse (JStr s) =
     (case parse s of None \<Rightarrow> Inl (Raised ''JSONDecodeError'') | Some v \<Rightarrow> Inr v)"
| "json_loads parse _ = Inl (Raised ''TypeError'')"

definition and_then :: "exn + 'a \<Rightarrow> ('a \<Rightarrow> exn + 'b) \<Rightarrow> exn + 'b" where
  "and_then r f = (case r of Inl e \<Rightarrow> Inl e | Inr x \<Rightarrow> f x)"

section \<open>The document fetcher\<close>

text \<open>\<^verbatim>\<open>response.raise_for_status()\<close> raises for a status from 400 to 599.\<close>

definition raises_for_status :: "nat \<Rightarrow> bool" where
  "raises_for_status s = (400 \<le> s \<and> s < 600)"

definition download_file_to_base64 :: "env \<Rightarrow> string \<Rightarrow> event list \<times> (exn + string)" where
  "download_file_to_base64 env url =
     ([EvGet url],
      case http_get env url of
        GetRaises e \<Rightarrow> Inl (HTTPException 400 (DownloadFailed (take 50 url) e))
      | GetReturns response \<Rightarrow>
          if raises_for_status (get_status_code response)
          then Inl (HTTPException 400 (DownloadFailed (take 50 url) ''HTTPError''))
          else
            let content_type =
                  (case content_type_header response of None \<Rightarrow> ''image/jpeg'' | Some c \<Rightarrow> c) in
            if \<not> startswith content_type ''image/'' \<and> \<not> startswith content_type ''application/pdf''
            then Inl (HTTPException 400 (UnsupportedFileType content_type))
            else Inr (''data:'' @ content_type @ '';base64,'' @ b64encode env (content response)))"

section \<open>The extraction client\<close>

definition before :: "char \<Rightarrow> string \<Rightarrow> string" where
  "before c s = takeWhile (\<lambda>x. x \<noteq> c) s"

definition after :: "char \<Rightarrow> string \<Rightarrow> string" where
  "after c s = drop 1 (dropWhile (\<lambda>x. x \<noteq> c) s)"

text \<open>
  Lines 94 and 95: \<^verbatim>\<open>split(',', 1)\<close> unpacked into two names, then
  \<^verbatim>\<open>split(':')[1].split(';')[0]\<close>.
\<close>

definition split_mime :: "string \<Rightarrow> exn + string \<times> string" where
  "split_mime base64_file_with_mime =
     (if CHR '','' \<notin> set base64_file_with_mime then Inl (Raised ''ValueError'')
      else if CHR '':'' \<notin> set (before CHR '','' base64_file_with_mime)
      then Inl (Raised ''IndexError'')
      else Inr (before CHR '';'' (before CHR '':'' (after CHR '':'' (before CHR '','' base64_file_with_mime))),
                after CHR '','' base64_file_with_mime))"

definition system_prompt :: string where
  "system_prompt =
     ''You are a highly accurate invoice data extraction specialist. '' @
     ''Analyze the entire multi-page bill document and extract ALL line item details, quantities, rates, and amounts. '' @
     ''Strictly adhere to the provided JSON schema for the output. '' @
     ''The 'page_type' must be one of: 'Bill Detail', 'Final Bill', or 'Pharmacy'. '' @
     ''The 'document_final_total' must be the exact grand total amount written on the entire bill document.''"

text \<open>
  \<^verbatim>\<open>LLMExtractionOutput.model_json_schema()\<close> returns the JSON schema of the model as a
  dict (the top-level keys are given here; the nested definitions are left out).
\<close>

definition model_json_schema :: json where
  "model_json_schema =
     JObj [(''title'', JStr ''LLMExtractionOutput''),
           (''type'', JStr ''object''),
           (''required'', JArr [JStr ''pagewise_line_items'', JStr ''document_final_total''])]"

text \<open>Step 3, the payload: line 116 passes that dict to \<^verbatim>\<open>json.loads\<close>.\<close>

definition build_payload :: "env \<Rightarrow> string \<Rightarrow> string \<Rightarrow> exn + payload" where
  "build_payload env mime_type base64_data =
     and_then (json_loads (json_parse env) model_json_schema)
       (\<lambda>schema. Inr \<lparr>text_part = system_prompt, mimeType = mime_type,
                        inline_data = base64_data, responseSchema = schema\<rparr>)"

text \<open>Step 5, lines 134 to 151, on the decoded body \<^verbatim>\<open>result\<close>.\<close>

definition extract_result :: "env \<Rightarrow> api_body \<Rightarrow> exn + llm_output" where
  "extract_result env result =
     and_then (case candidates result of None \<Rightarrow> Inl (Raised ''KeyError'') | Some c \<Rightarrow> Inr c) (\<lambda>c.
     and_then (getitem_0 c) (\<lambda>c0.
     and_then (getitem_key ''content'' c0) (\<lambda>cont.
     and_then (getitem_key ''parts'' cont) (\<lambda>parts.
     and_then (getitem_0 parts) (\<lambda>part.
     and_then (getitem_key ''text'' part) (\<lambda>extracted_json_text.
     and_then (json_loads (json_parse env) extracted_json_text) (\<lambda>extracted.
       let usage = (case usageMetadata result of
                      None \<Rightarrow> \<lparr>promptTokenCount = None, candidatesTokenCount = None\<rparr>
                    | Some u \<Rightarrow> u);
           input_tokens = (case promptTokenCount usage of None \<Rightarrow> 0 | Some n \<Rightarrow> n);
           output_tokens = (case candidatesTokenCount usage of None \<Rightarrow> 0 | Some n \<Rightarrow> n)
       in Inr \<lparr>extracted_data = extracted,
               llm_token_usage = \<lparr>total_tokens = input_tokens + output_tokens,
                                   input_tokens = input_tokens,
                                   output_tokens = output_tokens\<rparr>\<rparr>)))))))"

text \<open>
  The second handler of the loop (line 163) turns KeyError, IndexError, JSONDecodeError
  and AttributeError into a 500; any other exception passes through.
\<close>

fun structure_handler :: "exn \<Rightarrow> exn" where
  "structure_handler (Raised cls) =
     (if cls \<in> set [''KeyError'', ''IndexError'', ''JSONDecodeError'', ''AttributeError'']
      then HTTPException 500 (LLMInvalidStructure cls) else Raised cls)"
| "structure_handler e = e"

text \<open>
  The first handler of the loop (lines 153 to 162), for a RequestException with message
  \<open>e\<close>: \<open>Inl delay\<close> is the sleep before \<^verbatim>\<open>continue\<close>, \<open>Inr x\<close> the exception that leaves
  the function. \<^verbatim>\<open>response.json()\<close> on a body that is not JSON raises inside the
  handler.
\<close>

definition request_handler :: "nat \<Rightarrow> nat \<Rightarrow> post_response option \<Rightarrow> string \<Rightarrow> nat + exn" where
  "request_handler max_retries attempt response e =
     (case response of
        None \<Rightarrow> Inr (HTTPException 500 (LLMApiError (Inl e)))
      | Some r \<Rightarrow>
          if status_code r = 429 \<and> attempt < max_retries - 1 then Inl (2 ^ attempt)
          else
            (case json_body r of
               None \<Rightarrow> Inr (Raised ''JSONDecodeError'')
             | Some b \<Rightarrow>
                 (case dict_get ''message'' (JStr ''Unknown API Error'')
                         (case error b of None \<Rightarrow> JObj [] | Some v \<Rightarrow> v) of
                    Inl x \<Rightarrow> Inr x
                  | Inr error_detail \<Rightarrow>
                      Inr (HTTPException (status_code r) (LLMApiError (Inr error_detail))))))"

text \<open>
  One pass of the loop body: the new value of the variable \<^verbatim>\<open>response\<close>, and either the
  sleep before the next pass or the way the function is left. A POST that raises leaves
  \<^verbatim>\<open>response\<close> as the pass before set it.
\<close>

definition attempt_step ::
  "env \<Rightarrow> nat \<Rightarrow> nat \<Rightarrow> post_response option
     \<Rightarrow> post_response option \<times> (nat + (exn + llm_output))" where
  "attempt_step env max_retries attempt response =
     (case http_post env attempt of
        PostRaises e \<Rightarrow>
          (response,
           case request_handler max_retries attempt response e of
             Inl delay \<Rightarrow> Inl delay | Inr x \<Rightarrow> Inr (Inl x))
      | PostReturns r \<Rightarrow>
          (Some r,
           if raises_for_status (status_code r)
           then (case request_handler max_retries attempt (Some r) ''HTTPError'' of
                   Inl delay \<Rightarrow> Inl delay | Inr x \<Rightarrow> Inr (Inl x))
           else
             (case json_body r of
                None \<Rightarrow>
                  (case request_handler max_retries attempt (Some r) ''JSONDecodeError'' of
                     Inl delay \<Rightarrow> Inl delay | Inr x \<Rightarrow> Inr (Inl x))
              | Some result \<Rightarrow>
                  (case extract_result env result of
                     Inl x \<Rightarrow> Inr (Inl (structure_handler x))
                   | Inr out \<Rightarrow> Inr (Inr out)))))"

text \<open>
  Step 4, the loop \<^verbatim>\<open>for attempt in range(max_retries)\<close> over the attempts still to
  run, and line 167 after it.
\<close>

fun call_llm ::
  "env \<Rightarrow> payload \<Rightarrow> nat \<Rightarrow> nat list \<Rightarrow> post_response option
     \<Rightarrow> event list \<times> (exn + llm_output)" where
  "call_llm env p max_retries [] response = ([], Inl (HTTPException 503 RetriesExhausted))"
| "call_llm env p max_retries (attempt # rest) response =
     (case attempt_step env max_retries attempt response of
        (response', Inl delay) \<Rightarrow>
          (case call_llm env p max_retries rest response' of
             (evs, r) \<Rightarrow> (EvPost p # EvSleep delay # evs, r))
      | (response', Inr r) \<Rightarrow> ([EvPost p], r))"

definition extract_data_with_llm :: "env \<Rightarrow> string \<Rightarrow> event list \<times> (exn + llm_output)" where
  "extract_data_with_llm env document_url =
     (if API_KEY env = [] then ([], Inl (HTTPException 500 MissingApiKey))
      else
        case download_file_to_base64 env document_url of
          (evs, Inl e) \<Rightarrow> (evs, Inl e)
        | (evs, Inr base64_file_with_mime) \<Rightarrow>
            (case and_then (split_mime base64_file_with_mime)
                    (\<lambda>(mime_type, base64_data). build_payload env mime_type base64_data) of
               Inl e \<Rightarrow> (evs, Inl e)
             | Inr p \<Rightarrow>
                 (case call_llm env p 3 [0..<3] None of
                    (evs', r) \<Rightarrow> (evs @ evs', r))))"

section \<open>The request handler\<close>

text \<open>What the request answers once \<^verbatim>\<open>extract_data_with_llm\<close> has returned \<open>out\<close>.\<close>

definition answer_llm_output :: "llm_output \<Rightarrow> exn + ExtractionResponse" where
  "answer_llm_output out =
     (case process_llm_output out of Inl e \<Rightarrow> Inl (to_http e) | Inr resp \<Rightarrow> Inr resp)"

definition extract_bill_data :: "env \<Rightarrow> string \<Rightarrow> event list \<times> (exn + ExtractionResponse)" where
  "extract_bill_data env document_url =
     (case extract_data_with_llm env document_url of
        (evs, Inl e) \<Rightarrow> (evs, Inl (to_http e))
      | (evs, Inr out) \<Rightarrow> (evs, answer_llm_output out))"

section \<open>The spec's words\<close>

text \<open>All items of all pages: what the totals of the response are taken over.\<close>

definition all_items :: "LLMExtractionOutput \<Rightarrow> BillItem list" where
  "all_items d = concat (map bill_items (pagewise_line_items d))"

text \<open>
  The float sum of a list, taken from \<^verbatim>\<open>0.0\<close> in the order of the list, and with it the
  sum of a page and the sum of the sums of the pages.
\<close>

definition float_sum :: "double list \<Rightarrow> double" where
  "float_sum xs = foldl fadd (Finite 0) xs"

definition page_sum :: "PagewiseLineItem \<Rightarrow> double" where
  "page_sum page = float_sum (map item_amount (bill_items page))"

definition sum_of_page_sums :: "LLMExtractionOutput \<Rightarrow> double" where
  "sum_of_page_sums d = float_sum (map page_sum (pagewise_line_items d))"

text \<open>The sum of the amounts as numbers, with no rounding (amounts taken to be finite).\<close>

fun value_of :: "double \<Rightarrow> rat" where
  "value_of (Finite x) = x"
| "value_of d = 0"

definition exact_sum :: "BillItem list \<Rightarrow> rat" where
  "exact_sum items = sum_list (map (\<lambda>item. value_of (item_amount item)) items)"

text \<open>
  A parsed item that lacks one of the four fields, or whose name is not a string, or
  whose amount, rate or quantity is null, a list, an object or text that does not read
  as a float.
\<close>

fun bad_name :: "json option \<Rightarrow> bool" where
  "bad_name (Some (JStr s)) = False"
| "bad_name _ = True"

fun bad_number :: "json option \<Rightarrow> bool" where
  "bad_number None = True"
| "bad_number (Some JNull) = True"
| "bad_number (Some (JArr xs)) = True"
| "bad_number (Some (JObj kv)) = True"
| "bad_number (Some (JStr s)) = (str_as_float s = None)"
| "bad_number _ = False"

fun item_malformed :: "json \<Rightarrow> bool" where
  "item_malformed (JObj kv) =
     (bad_name (map_of kv ''item_name'') \<or> bad_number (map_of kv ''item_amount'')
      \<or> bad_number (map_of kv ''item_rate'') \<or> bad_number (map_of kv ''item_quantity''))"
| "item_malformed _ = True"



section \<open>Example inputs\<close>

text \<open>
  The spec's worked example: two pages, three items, and a reported grand total of
  999.99 that is wrong on purpose. The rate of the last item is left open.
\<close>

definition bill_with :: "json \<Rightarrow> json" where
  "bill_with rate_of_c =
     JObj [(''pagewise_line_items'', JArr
             [JObj [(''page_no'', JStr ''1''), (''page_type'', JStr ''Bill Detail''),
                    (''bill_items'', JArr
                       [JObj [(''item_name'', JStr ''A''), (''item_amount'', JFloat (Finite 100)),
                              (''item_rate'', JFloat (Finite 50)), (''item_quantity'', JInt 2)],
                        JObj [(''item_name'', JStr ''B''), (''item_amount'', JFloat (Finite (101 / 2))),
                              (''item_rate'', JFloat (Finite (101 / 2))), (''item_quantity'', JInt 1)]])],
              JObj [(''page_no'', JStr ''2''), (''page_type'', JStr ''Pharmacy''),
                    (''bill_items'', JArr
                       [JObj [(''item_name'', JStr ''C''), (''item_amount'', JFloat (Finite (101 / 4))),
                              (''item_rate'', rate_of_c), (''item_quantity'', JInt 1)]])]]),
           (''document_final_total'', JFloat (dec 99999 (- 2)))]"

definition example_extracted_data :: json where
  "example_extracted_data = bill_with (JFloat (Finite (101 / 4)))"

definition example_validated :: LLMExtractionOutput where
  "example_validated =
     \<lparr>pagewise_line_items =
        [\<lparr>page_no = ''1'', page_type = ''Bill Detail'',
          bill_items =
            [\<lparr>item_name = ''A'', item_amount = Finite 100, item_rate = Finite 50,
              item_quantity = Finite 2\<rparr>,
             \<lparr>item_name = ''B'', item_amount = Finite (101 / 2), item_rate = Finite (101 / 2),
              item_quantity = Finite 1\<rparr>]\<rparr>,
         \<lparr>page_no = ''2'', page_type = ''Pharmacy'',
          bill_items =
            [\<lparr>item_name = ''C'', item_amount = Finite (101 / 4), item_rate = Finite (101 / 4),
              item_quantity = Finite 1\<rparr>]\<rparr>],
      document_final_total = dec 99999 (- 2)\<rparr>"

definition example_usage :: TokenUsage where
  "example_usage = \<lparr>total_tokens = 30, input_tokens = 10, output_tokens = 20\<rparr>"

definition example_llm_output :: llm_output where
  "example_llm_output =
     \<lparr>extracted_data = example_extracted_data, llm_token_usage = example_usage\<rparr>"

text \<open>One page with one item, the page type and the amount left open.\<close>

definition one_item_page :: "json option \<Rightarrow> json option \<Rightarrow> (string \<times> json) list" where
  "one_item_page ptype amount =
     (case ptype of None \<Rightarrow> [] | Some t \<Rightarrow> [(''page_type'', t)]) @
     [(''page_no'', JStr ''1''),
      (''bill_items'', JArr
         [JObj ((case amount of None \<Rightarrow> [] | Some a \<Rightarrow> [(''item_amount'', a)]) @
                [(''item_name'', JStr ''Syringe''), (''item_rate'', JFloat (Finite (25 / 2))),
                 (''item_quantity'', JInt 1)])])]"

definition one_item_output :: "json option \<Rightarrow> json option \<Rightarrow> llm_output" where
  "one_item_output ptype amount =
     \<lparr>extracted_data =
        JObj [(''pagewise_line_items'', JArr [JObj (one_item_page ptype amount)]),
              (''document_final_total'', JFloat (Finite (25 / 2)))],
      llm_token_usage = example_usage\<rparr>"

text \<open>
  A parsed output with the given amounts on the given pages, one inner list for each
  page, and the record it validates to. The three amounts 1.088, 1.114 and 0.163 on one
  page, and the same amounts with the first on a page of its own.
\<close>

definition amount_json :: "double \<Rightarrow> json" where
  "amount_json a =
     JObj [(''item_name'', JStr ''item''), (''item_amount'', JFloat a),
           (''item_rate'', JFloat a), (''item_quantity'', JFloat (Finite 1))]"

definition amounts_json :: "double list list \<Rightarrow> json" where
  "amounts_json pages =
     JObj [(''pagewise_line_items'', JArr
             (map (\<lambda>amounts. JObj [(''page_no'', JStr ''1''), (''page_type'', JStr ''Pharmacy''),
                                    (''bill_items'', JArr (map amount_json amounts))])
                pages)),
           (''document_final_total'', JFloat (dec 99999 (- 2)))]"

definition amount_item :: "double \<Rightarrow> BillItem" where
  "amount_item a =
     \<lparr>item_name = ''item'', item_amount = a, item_rate = a, item_quantity = Finite 1\<rparr>"

definition amounts_validated :: "double list list \<Rightarrow> LLMExtractionOutput" where
  "amounts_validated pages =
     \<lparr>pagewise_line_items =
        map (\<lambda>amounts. \<lparr>page_no = ''1'', page_type = ''Pharmacy'',
                          bill_items = map amount_item amounts\<rparr>)
          pages,
      document_final_total = dec 99999 (- 2)\<rparr>"

definition on_one_page :: "double list list" where
  "on_one_page = [[dec 1088 (- 3), dec 1114 (- 3), dec 163 (- 3)]]"

definition on_two_pages :: "double list list" where
  "on_two_pages = [[dec 1088 (- 3)], [dec 1114 (- 3), dec 163 (- 3)]]"

text \<open>
  Responses of the model service: a body whose generated text is the worked example,
  and a rate-limit answer.
\<close>

definition example_body :: api_body where
  "example_body =
     \<lparr>candidates = Some (JArr [JObj [(''content'',
                         JObj [(''parts'', JArr [JObj [(''text'', JStr ''BILL_JSON'')]])])]]),
      usageMetadata = Some \<lparr>promptTokenCount = Some 10, candidatesTokenCount = Some 20\<rparr>,
      error = None\<rparr>"

definition rate_limited :: post_response where
  "rate_limited =
     \<lparr>status_code = 429,
      json_body = Some \<lparr>candidates = None, usageMetadata = None,
                         error = Some (JObj [(''message'', JStr ''Resource exhausted'')])\<rparr>\<rparr>"

definition ok_response :: post_response where
  "ok_response = \<lparr>status_code = 200, json_body = Some example_body\<rparr>"

definition document :: "string option \<Rightarrow> get_response" where
  "document ctype = \<lparr>get_status_code = 200, content_type_header = ctype, content = ''abc''\<rparr>"

text \<open>
  An environment with a key, a PNG document, and a model service that answers 429 to
  the first two POSTs and then succeeds; and its variants.
\<close>

definition example_env :: env where
  "example_env =
     \<lparr>API_KEY = ''secret'',
      http_get = (\<lambda>url. GetReturns (document (Some ''image/png''))),
      http_post = (\<lambda>n. PostReturns (if n < 2 then rate_limited else ok_response)),
      json_parse = (\<lambda>s. if s = ''BILL_JSON'' then Some example_extracted_data else None),
      b64encode = (\<lambda>s. ''YWJj'')\<rparr>"

definition env_always_429 :: env where
  "env_always_429 = example_env\<lparr>http_post := (\<lambda>n. PostReturns rate_limited)\<rparr>"

definition env_no_key :: env where
  "env_no_key = example_env\<lparr>API_KEY := []\<rparr>"

definition env_serving :: "string option \<Rightarrow> env" where
  "env_serving ctype = example_env\<lparr>http_get := (\<lambda>url. GetReturns (document ctype))\<rparr>"

definition example_url :: string where
  "example_url = ''https://bills.example/scan-17''"

definition example_payload :: payload where
  "example_payload =
     \<lparr>text_part = system_prompt, mimeType = ''image/png'', inline_data = ''YWJj'',
      responseSchema = model_json_schema\<rparr>"

section \<open>Floats: the proofs\<close>

lemma floor_rat_numeral: "\<lfloor>numeral a / numeral b :: rat\<rfloor> = numeral a div numeral b"
  using floor_divide_of_int_eq [of "numeral a" "numeral b", where ?'a = rat] by simp

lemma floor_rat_neg_numeral:
  "\<lfloor>- (numeral a / numeral b) :: rat\<rfloor> = - numeral a div numeral b"
  using floor_divide_of_int_eq [of "- numeral a" "numeral b", where ?'a = rat] by simp

lemma ceiling_rat_numeral:
  "\<lceil>numeral a / numeral b :: rat\<rceil> = - (- numeral a div numeral b)"
  by (simp add: ceiling_def floor_rat_neg_numeral)

lemma ceiling_rat_neg_numeral:
  "\<lceil>- (numeral a / numeral b) :: rat\<rceil> = - (numeral a div numeral b)"
  by (simp add: ceiling_def floor_rat_numeral)

text \<open>The equations that evaluate a float operation on numerals.\<close>

lemmas fl_eval = fl_def round_at_def round_to_ulp_def pack_def round_half_even_def
  nearest_even_def floor_log2_def pow2_def bit_length.simps cents_def dec_def
  floor_rat_numeral floor_rat_neg_numeral ceiling_rat_numeral ceiling_rat_neg_numeral

lemma round_half_even_near: "\<bar>x - of_int (round_half_even x)\<bar> \<le> 1 / 2"
proof -
  have "of_int \<lfloor>x\<rfloor> \<le> x" and "x < of_int \<lfloor>x\<rfloor> + 1"
    by linarith+
  then show ?thesis
    by (auto simp: round_half_even_def nearest_even_def)
qed

lemma round_half_even_tie:
  assumes "\<bar>x - of_int (round_half_even x)\<bar> = 1 / 2"
  shows "even (round_half_even x)"
proof -
  have "of_int \<lfloor>x\<rfloor> \<le> x" and "x < of_int \<lfloor>x\<rfloor> + 1"
    by linarith+
  with assms show ?thesis
    by (auto simp: round_half_even_def nearest_even_def split: if_splits)
qed

lemma float_examples:
  "fadd (dec 1088 (- 3)) (dec 1114 (- 3)) = dec 2202 (- 3)"
  "fadd (dec 2202 (- 3)) (dec 163 (- 3)) = dec 23649999999999998 (- 16)"
  "fadd (dec 1114 (- 3)) (dec 163 (- 3)) = dec 12770000000000001 (- 16)"
  "fadd (dec 1088 (- 3)) (dec 12770000000000001 (- 16)) = dec 2365 (- 3)"
  "py_round2 (dec 23649999999999998 (- 16)) = dec 236 (- 2)"
  "py_round2 (dec 2365 (- 3)) = dec 237 (- 2)"
  "dec 236 (- 2) \<noteq> dec 237 (- 2)"
  by (simp_all add: fl_eval)

lemma rounding_examples:
  "py_round2 (Finite (1 / 8)) = dec 12 (- 2)"
  "py_round2 (Finite (3 / 8)) = dec 38 (- 2)"
  "py_round2 (dec (- 1) (- 3)) = NegZero"
  "fadd (fadd (dec 1 16) (Finite 1)) (dec (- 1) 16) = Finite 0"
  by (simp_all add: fl_eval)

section \<open>Aggregation: the proofs\<close>

lemma item_loop_eq:
  "item_loop items (s, c) = (foldl fadd s (map item_amount items), c + int (length items))"
  by (induction items arbitrary: s c) simp_all

lemma page_loop_eq:
  "page_loop pages (t, c, out) =
     (foldl fadd t (map page_sum pages),
      c + int (length (concat (map bill_items pages))),
      out @ pages)"
  by (induction pages arbitrary: t c out)
     (simp_all add: item_loop_eq page_sum_def float_sum_def add.assoc)

lemma build_response_data:
  "data (build_response d tu) =
     \<lparr>data_pagewise_line_items = pagewise_line_items d,
      final_total_extracted = py_round2 (sum_of_page_sums d),
      total_item_count = int (length (all_items d)),
      sub_total_extracted = None\<rparr>"
  by (simp add: build_response_def page_loop_eq all_items_def sum_of_page_sums_def float_sum_def)


lemma small_ints: "fl 1 = Finite 1" "fl 2 = Finite 2" "fl 5 = Finite 5"
  by (simp_all add: fl_eval)

lemma example_validates:
  "validate_LLMExtractionOutput (extracted_data example_llm_output) = Inr example_validated"
  by (simp add: example_llm_output_def example_extracted_data_def bill_with_def
        example_validated_def required_def small_ints)

lemma validate_amounts:
  "validate_list validate_BillItem (map amount_json amounts) = Some (map amount_item amounts)"
  by (induction amounts) (simp_all add: amount_json_def amount_item_def required_def)

lemma validate_amount_pages:
  "validate_list validate_PagewiseLineItem
     (map (\<lambda>amounts. JObj [(''page_no'', JStr ''1''), (''page_type'', JStr ''Pharmacy''),
                            (''bill_items'', JArr (map amount_json amounts))]) pages)
   = Some (map (\<lambda>amounts. \<lparr>page_no = ''1'', page_type = ''Pharmacy'',
                             bill_items = map amount_item amounts\<rparr>) pages)"
  by (induction pages) (simp_all add: required_def validate_amounts)

lemma amounts_validate:
  "validate_LLMExtractionOutput (amounts_json pages) = Inr (amounts_validated pages)"
  by (simp add: amounts_json_def amounts_validated_def required_def validate_amount_pages)

lemma sum_on_one_page:
  "sum_of_page_sums (amounts_validated on_one_page) = dec 23649999999999998 (- 16)"
  by (simp add: sum_of_page_sums_def amounts_validated_def on_one_page_def page_sum_def
        float_sum_def amount_item_def float_examples)
     (simp add: fl_eval)

lemma sum_on_two_pages:
  "sum_of_page_sums (amounts_validated on_two_pages) = dec 2365 (- 3)"
  by (simp add: sum_of_page_sums_def amounts_validated_def on_two_pages_def page_sum_def
        float_sum_def amount_item_def float_examples)
     (simp add: fl_eval)

text \<open>
  C1 as stated fails. The amounts 1.088, 1.114 and 0.163 on one page give the total
  2.36; the same amounts in the same order with the first on a page of its own give 2.37,
  which is also what their sum as numbers rounds to. So the total is not the rounded sum
  of all amounts: float addition rounds at every step, and the steps follow the pages.
\<close>

theorem total_depends_on_page_split:
  "all_items (amounts_validated on_one_page) = all_items (amounts_validated on_two_pages)
   \<and> process_llm_output \<lparr>extracted_data = amounts_json on_one_page,
                          llm_token_usage = example_usage\<rparr>
     = Inr (build_response (amounts_validated on_one_page) example_usage)
   \<and> final_total_extracted (data (build_response (amounts_validated on_one_page) example_usage))
     = dec 236 (- 2)
   \<and> final_total_extracted (data (build_response (amounts_validated on_two_pages) example_usage))
     = dec 237 (- 2)
   \<and> py_round2 (Finite (exact_sum (all_items (amounts_validated on_one_page)))) = dec 237 (- 2)
   \<and> dec 236 (- 2) \<noteq> dec 237 (- 2)"
proof -
  have 1: "all_items (amounts_validated on_one_page) = all_items (amounts_validated on_two_pages)"
    by (simp add: all_items_def amounts_validated_def on_one_page_def on_two_pages_def)
  have 2: "process_llm_output \<lparr>extracted_data = amounts_json on_one_page,
                                llm_token_usage = example_usage\<rparr>
     = Inr (build_response (amounts_validated on_one_page) example_usage)"
    by (simp add: process_llm_output_def amounts_validate)
  have 3: "final_total_extracted (data (build_response (amounts_validated on_one_page) example_usage))
     = dec 236 (- 2)"
    by (simp add: build_response_data sum_on_one_page float_examples)
  have 4: "final_total_extracted (data (build_response (amounts_validated on_two_pages) example_usage))
     = dec 237 (- 2)"
    by (simp add: build_response_data sum_on_two_pages float_examples)
  have 5: "py_round2 (Finite (exact_sum (all_items (amounts_validated on_one_page)))) = dec 237 (- 2)"
    by (simp add: exact_sum_def all_items_def amounts_validated_def on_one_page_def amount_item_def)
       (simp add: fl_eval)
  from 1 2 3 4 5 float_examples(7) show ?thesis by simp
qed

text \<open>
  C1, as the code has it. For every validated extraction result a response is built, and
  its \<open>final_total_extracted\<close> is \<^verbatim>\<open>round(., 2)\<close> of the float sum of the page sums, each
  page sum the float sum of the amounts of its page, all sums taken from \<^verbatim>\<open>0.0\<close> in
  document order. No page sum is rounded to decimals: the one rounding to two places is
  the last step, and when the sum of the page sums is a finite \<open>x\<close> the total is the
  float of a decimal \<open>n / 100\<close> that is nearest to \<open>x\<close>, with the even \<open>n\<close> on a tie. The
  reported \<open>document_final_total\<close> plays no part: whatever it is, the total is the same.
\<close>

theorem final_total_is_rounded_sum_of_page_sums:
  assumes "validate_LLMExtractionOutput (extracted_data out) = Inr d"
  shows "\<exists>resp. process_llm_output out = Inr resp
           \<and> final_total_extracted (data resp) = py_round2 (sum_of_page_sums d)
           \<and> (\<forall>x. sum_of_page_sums d = Finite x \<longrightarrow>
                 (\<exists>n. \<bar>x * 100 - of_int n\<bar> \<le> 1 / 2
                    \<and> (\<bar>x * 100 - of_int n\<bar> = 1 / 2 \<longrightarrow> even n)
                    \<and> final_total_extracted (data resp) = cents x n))
           \<and> (\<forall>t. final_total_extracted
                      (data (build_response (d\<lparr>document_final_total := t\<rparr>) (llm_token_usage out)))
                    = final_total_extracted (data resp))"
proof -
  have r: "process_llm_output out = Inr (build_response d (llm_token_usage out))"
    using assms by (simp add: process_llm_output_def)
  have t: "final_total_extracted (data (build_response d (llm_token_usage out)))
             = py_round2 (sum_of_page_sums d)"
    by (simp add: build_response_data)
  have n: "\<exists>n. \<bar>x * 100 - of_int n\<bar> \<le> 1 / 2
                \<and> (\<bar>x * 100 - of_int n\<bar> = 1 / 2 \<longrightarrow> even n)
                \<and> py_round2 (Finite x) = cents x n" for x
    using round_half_even_near [of "x * 100"] round_half_even_tie [of "x * 100"]
    by (intro exI [of _ "round_half_even (x * 100)"]) simp
  have i: "final_total_extracted
             (data (build_response (d\<lparr>document_final_total := t'\<rparr>) (llm_token_usage out)))
           = py_round2 (sum_of_page_sums d)" for t'
    by (simp add: build_response_data sum_of_page_sums_def)
  from r t n i show ?thesis by auto
qed

theorem final_total_is_rounded_sum_of_page_sums_witness:
  "validate_LLMExtractionOutput (amounts_json on_one_page) = Inr (amounts_validated on_one_page)
   \<and> sum_of_page_sums (amounts_validated on_one_page) = dec 23649999999999998 (- 16)
   \<and> (\<exists>resp. process_llm_output \<lparr>extracted_data = amounts_json on_one_page,
                                   llm_token_usage = example_usage\<rparr> = Inr resp
          \<and> final_total_extracted (data resp) = dec 236 (- 2))
   \<and> validate_LLMExtractionOutput (extracted_data example_llm_output) = Inr example_validated
   \<and> (\<exists>resp. process_llm_output example_llm_output = Inr resp
          \<and> final_total_extracted (data resp) = dec 17575 (- 2))"
proof -
  let ?out = "\<lparr>extracted_data = amounts_json on_one_page, llm_token_usage = example_usage\<rparr>"
  have v: "validate_LLMExtractionOutput (extracted_data ?out) = Inr (amounts_validated on_one_page)"
    by (simp add: amounts_validate)
  from final_total_is_rounded_sum_of_page_sums [OF v]
  have a: "\<exists>resp. process_llm_output ?out = Inr resp
             \<and> final_total_extracted (data resp) = dec 236 (- 2)"
    by (auto simp: sum_on_one_page float_examples)
  have s: "py_round2 (sum_of_page_sums example_validated) = dec 17575 (- 2)"
    by (simp add: sum_of_page_sums_def example_validated_def page_sum_def float_sum_def)
       (simp add: fl_eval)
  from final_total_is_rounded_sum_of_page_sums [OF example_validates] s
  have b: "\<exists>resp. process_llm_output example_llm_output = Inr resp
             \<and> final_total_extracted (data resp) = dec 17575 (- 2)"
    by auto
  from v a b sum_on_one_page example_validates show ?thesis by simp
qed

text \<open>
  C6. For every validated extraction result the \<open>total_item_count\<close> of the response is
  the number of items of all pages together.
\<close>

theorem total_item_count_is_number_of_items:
  assumes "validate_LLMExtractionOutput (extracted_data out) = Inr d"
  shows "\<exists>resp. process_llm_output out = Inr resp
           \<and> total_item_count (data resp) = int (length (all_items d))"
  using assms by (simp add: process_llm_output_def build_response_data)

theorem total_item_count_is_number_of_items_witness:
  "validate_LLMExtractionOutput (extracted_data example_llm_output) = Inr example_validated
   \<and> (\<exists>resp. process_llm_output example_llm_output = Inr resp \<and> total_item_count (data resp) = 3)"
proof -
  have n: "int (length (all_items example_validated)) = 3"
    by (simp add: all_items_def example_validated_def)
  from total_item_count_is_number_of_items [OF example_validates] n example_validates
  show ?thesis by auto
qed

section \<open>Validation: the proofs\<close>

lemma validate_list_None:
  "x \<in> set xs \<Longrightarrow> v x = None \<Longrightarrow> validate_list v xs = None"
  by (induction xs) (auto split: option.splits)

lemma required_str_None:
  "\<forall>s. map_of kv k \<noteq> Some (JStr s) \<Longrightarrow> required kv k validate_str = None"
proof (cases "map_of kv k")
  case None
  then show ?thesis by (simp add: required_def)
next
  case (Some x)
  assume "\<forall>s. map_of kv k \<noteq> Some (JStr s)"
  with Some show ?thesis by (cases x) (simp_all add: required_def)
qed

lemma required_float_None:
  "bad_number (map_of kv k) \<Longrightarrow> required kv k validate_float = None"
proof (cases "map_of kv k")
  case None
  then show ?thesis by (simp add: required_def)
next
  case (Some x)
  assume "bad_number (map_of kv k)"
  with Some show ?thesis by (cases x) (simp_all add: required_def)
qed

lemma required_name_None:
  "bad_name (map_of kv k) \<Longrightarrow> required kv k validate_str = None"
proof (cases "map_of kv k")
  case None
  then show ?thesis by (simp add: required_def)
next
  case (Some x)
  assume "bad_name (map_of kv k)"
  with Some show ?thesis by (cases x) (simp_all add: required_def)
qed

lemma malformed_item_fails: "item_malformed it \<Longrightarrow> validate_BillItem it = None"
proof (cases it)
  case (JObj kv)
  assume "item_malformed it"
  with JObj show ?thesis
    by (auto simp: required_name_None required_float_None split: option.splits)
qed simp_all

lemma bad_page_rejected:
  assumes "extracted_data out = JObj okv"
    and "map_of okv ''pagewise_line_items'' = Some (JArr pages)"
    and "pg \<in> set pages"
    and "validate_PagewiseLineItem pg = None"
  shows "answer_llm_output out = Inl (HTTPException 500 (Uncaught ''ValidationError''))"
proof -
  have "validate_list validate_PagewiseLineItem pages = None"
    using assms(3,4) by (rule validate_list_None)
  then have "required okv ''pagewise_line_items'' validate_pages = None"
    using assms(2) by (simp add: required_def)
  then show ?thesis
    using assms(1) by (simp add: answer_llm_output_def process_llm_output_def)
qed

lemma page_type_swap:
  assumes "validate_PagewiseLineItem (JObj ((''page_type'', JStr t) # kv)) = Some pg"
  shows "validate_PagewiseLineItem (JObj ((''page_type'', JStr t') # kv))
           = Some (pg\<lparr>page_type := t'\<rparr>)"
proof -
  obtain n where n: "required kv ''page_no'' validate_str = Some n"
    using assms by (cases "required kv ''page_no'' validate_str") (simp_all add: required_def)
  obtain its where its: "required kv ''bill_items'' validate_bill_items = Some its"
    using assms n
    by (cases "required kv ''bill_items'' validate_bill_items") (simp_all add: required_def)
  have "pg = \<lparr>page_no = n, page_type = t, bill_items = its\<rparr>"
    using assms n its by (simp add: required_def)
  then show ?thesis
    using n its by (simp add: required_def)
qed

text \<open>
  C3, as the code has it. \<open>page_type\<close> is a plain string field: a page validates with
  one string there exactly when it validates with any other, the three enumerated values
  or not, and the validated page carries the string as given. What is rejected is a page
  whose \<open>page_type\<close> is absent or not a string: then the whole output fails validation and
  the request answers 500.
\<close>

theorem page_type_is_any_string:
  "(validate_PagewiseLineItem (JObj ((''page_type'', JStr t) # kv)) = Some pg
      \<longrightarrow> validate_PagewiseLineItem (JObj ((''page_type'', JStr t') # kv))
            = Some (pg\<lparr>page_type := t'\<rparr>))
   \<and> (extracted_data out = JObj okv
        \<and> map_of okv ''pagewise_line_items'' = Some (JArr pages)
        \<and> JObj kv' \<in> set pages
        \<and> (\<forall>s. map_of kv' ''page_type'' \<noteq> Some (JStr s))
      \<longrightarrow> answer_llm_output out = Inl (HTTPException 500 (Uncaught ''ValidationError'')))"
proof (intro conjI impI)
  assume "validate_PagewiseLineItem (JObj ((''page_type'', JStr t) # kv)) = Some pg"
  then show "validate_PagewiseLineItem (JObj ((''page_type'', JStr t') # kv))
               = Some (pg\<lparr>page_type := t'\<rparr>)"
    by (rule page_type_swap)
next
  assume a: "extracted_data out = JObj okv
        \<and> map_of okv ''pagewise_line_items'' = Some (JArr pages)
        \<and> JObj kv' \<in> set pages
        \<and> (\<forall>s. map_of kv' ''page_type'' \<noteq> Some (JStr s))"
  then have "required kv' ''page_type'' validate_str = None"
    by (simp add: required_str_None)
  then have "validate_PagewiseLineItem (JObj kv') = None"
    by (simp split: option.splits)
  with a show "answer_llm_output out = Inl (HTTPException 500 (Uncaught ''ValidationError''))"
    using bad_page_rejected by blast
qed

text \<open>
  C3 as stated fails: a page type outside the three enumerated values passes validation
  and reaches the success response unchanged.
\<close>

theorem out_of_enum_page_type_accepted:
  "''Discharge Summary'' \<notin> set [''Bill Detail'', ''Final Bill'', ''Pharmacy'']
   \<and> (\<exists>resp. answer_llm_output
                (one_item_output (Some (JStr ''Discharge Summary'')) (Some (JFloat (Finite (25 / 2)))))
              = Inr resp
            \<and> is_success resp
            \<and> map page_type (data_pagewise_line_items (data resp)) = [''Discharge Summary''])"
  by (simp add: answer_llm_output_def process_llm_output_def one_item_output_def
        one_item_page_def required_def build_response_def small_ints)

theorem page_type_is_any_string_witness:
  "validate_PagewiseLineItem
     (JObj ((''page_type'', JStr ''Pharmacy'') # one_item_page None (Some (JInt 5))))
     = Some \<lparr>page_no = ''1'', page_type = ''Pharmacy'',
             bill_items = [\<lparr>item_name = ''Syringe'', item_amount = Finite 5,
                            item_rate = Finite (25 / 2), item_quantity = Finite 1\<rparr>]\<rparr>
   \<and> validate_PagewiseLineItem
       (JObj ((''page_type'', JStr ''Ward'') # one_item_page None (Some (JInt 5))))
     = Some \<lparr>page_no = ''1'', page_type = ''Ward'',
             bill_items = [\<lparr>item_name = ''Syringe'', item_amount = Finite 5,
                            item_rate = Finite (25 / 2), item_quantity = Finite 1\<rparr>]\<rparr>
   \<and> answer_llm_output (one_item_output None (Some (JInt 5)))
     = Inl (HTTPException 500 (Uncaught ''ValidationError''))"
proof -
  let ?kv = "one_item_page None (Some (JInt 5))"
  let ?out = "one_item_output None (Some (JInt 5))"
  let ?okv = "[(''pagewise_line_items'', JArr [JObj ?kv]),
               (''document_final_total'', JFloat (Finite (25 / 2)))]"
  let ?pg = "\<lparr>page_no = ''1'', page_type = ''Pharmacy'',
             bill_items = [\<lparr>item_name = ''Syringe'', item_amount = Finite 5,
                            item_rate = Finite (25 / 2), item_quantity = Finite 1\<rparr>]\<rparr>"
  note T = page_type_is_any_string
    [where t = "''Pharmacy''" and kv = ?kv and pg = ?pg and t' = "''Ward''"
       and out = ?out and okv = ?okv and pages = "[JObj ?kv]" and kv' = ?kv]
  have v: "validate_PagewiseLineItem (JObj ((''page_type'', JStr ''Pharmacy'') # ?kv)) = Some ?pg"
    by (simp add: one_item_page_def required_def small_ints)
  have h1: "extracted_data ?out = JObj ?okv"
    by (simp add: one_item_output_def one_item_page_def)
  have h2: "map_of ?okv ''pagewise_line_items'' = Some (JArr [JObj ?kv])"
    by simp
  have h3: "JObj ?kv \<in> set [JObj ?kv]"
    by simp
  have h4: "\<forall>s. map_of ?kv ''page_type'' \<noteq> Some (JStr s)"
    by (simp add: one_item_page_def)
  from T v have w: "validate_PagewiseLineItem (JObj ((''page_type'', JStr ''Ward'') # ?kv))
                      = Some (?pg\<lparr>page_type := ''Ward''\<rparr>)"
    by blast
  from T h1 h2 h3 h4
  have r: "answer_llm_output ?out = Inl (HTTPException 500 (Uncaught ''ValidationError''))"
    by blast
  from v w r show ?thesis by simp
qed

text \<open>What the float field makes of some texts.\<close>

lemma text_examples:
  "str_as_float ''12.5'' = Some (Finite (25 / 2))"
  "str_as_float ''1e3'' = Some (Finite 1000)"
  "str_as_float ([CHR 0x09] @ ''-0.25'' @ [CHR 0x0A]) = Some (Finite (- (1 / 4)))"
  "str_as_float ''1_000'' = Some (Finite 1000)"
  "str_as_float ''Infinity'' = Some PosInf"
  "str_as_float ''-inf'' = Some NegInf"
  "str_as_float ''NaN'' = Some NaN"
  "str_as_float ''-0'' = Some NegZero"
  "str_as_float ''5.'' = Some (Finite 5)"
  "str_as_float ''.5'' = Some (Finite (1 / 2))"
  by (simp_all add: str_as_float_def trim_def is_space_def parse_float_def lower_def
        parse_number_def is_digit_def digits_val_def digit_val_def strip_underscores_def
        fl_eval)

lemma not_numeric_examples:
  "str_as_float ''N/A'' = None"
  "str_as_float [] = None"
  "str_as_float ''.'' = None"
  "str_as_float ''1e'' = None"
  "str_as_float ''12,5'' = None"
  "str_as_float ''_1'' = None"
  "str_as_float ''twelve'' = None"
  by (simp_all add: str_as_float_def trim_def is_space_def parse_float_def lower_def
        parse_number_def is_digit_def digits_val_def digit_val_def strip_underscores_def)

text \<open>
  C4 as stated fails: an amount given as the text \<open>12.5\<close> is converted to the number and
  aggregated.
\<close>

theorem numeric_text_accepted:
  "\<exists>resp. answer_llm_output (one_item_output (Some (JStr ''Pharmacy'')) (Some (JStr ''12.5'')))
            = Inr resp
          \<and> is_success resp
          \<and> final_total_extracted (data resp) = Finite (25 / 2)
          \<and> total_item_count (data resp) = 1"
  by (simp add: answer_llm_output_def process_llm_output_def one_item_output_def
        one_item_page_def required_def text_examples small_ints build_response_def)
     (simp add: fl_eval)

text \<open>
  C4, as the code has it. If any item of any page lacks one of the four fields, or has a
  name that is not a string, or an amount, rate or quantity that is null, a list, an
  object or text that does not read as a number, the whole output fails validation: the
  request answers 500 and nothing is aggregated. Numbers and text that reads as a number
  are taken, the text converted (\<open>validate_float\<close>).
\<close>

theorem malformed_item_rejects_whole_result:
  assumes "extracted_data out = JObj okv"
    and "map_of okv ''pagewise_line_items'' = Some (JArr pages)"
    and "JObj pkv \<in> set pages"
    and "map_of pkv ''bill_items'' = Some (JArr items)"
    and "it \<in> set items"
    and "item_malformed it"
  shows "answer_llm_output out = Inl (HTTPException 500 (Uncaught ''ValidationError''))"
proof -
  have "validate_BillItem it = None"
    using assms(6) by (rule malformed_item_fails)
  with assms(5) have "validate_list validate_BillItem items = None"
    by (rule validate_list_None)
  with assms(4) have "required pkv ''bill_items'' validate_bill_items = None"
    by (simp add: required_def)
  then have "validate_PagewiseLineItem (JObj pkv) = None"
    by (simp split: option.splits)
  with assms(1,2,3) show ?thesis
    by (rule bad_page_rejected)
qed

text \<open>
  The worked example with the rate of its last item, the one item of the second page,
  given as the text \<open>N/A\<close>; and a one-item page whose item has no amount.
\<close>

theorem malformed_item_rejects_whole_result_witness:
  "item_malformed (JObj [(''item_name'', JStr ''C''), (''item_amount'', JFloat (Finite (101 / 4))),
                         (''item_rate'', JStr ''N/A''), (''item_quantity'', JInt 1)])
   \<and> answer_llm_output \<lparr>extracted_data = bill_with (JStr ''N/A''),
                         llm_token_usage = example_usage\<rparr>
     = Inl (HTTPException 500 (Uncaught ''ValidationError''))
   \<and> item_malformed (JObj [(''item_name'', JStr ''Syringe''),
                           (''item_rate'', JFloat (Finite (25 / 2))), (''item_quantity'', JInt 1)])
   \<and> answer_llm_output (one_item_output (Some (JStr ''Pharmacy'')) None)
     = Inl (HTTPException 500 (Uncaught ''ValidationError''))"
proof -
  let ?c = "JObj [(''item_name'', JStr ''C''), (''item_amount'', JFloat (Finite (101 / 4))),
                  (''item_rate'', JStr ''N/A''), (''item_quantity'', JInt 1)]"
  let ?a = "JObj [(''item_name'', JStr ''A''), (''item_amount'', JFloat (Finite 100)),
                  (''item_rate'', JFloat (Finite 50)), (''item_quantity'', JInt 2)]"
  let ?b = "JObj [(''item_name'', JStr ''B''), (''item_amount'', JFloat (Finite (101 / 2))),
                  (''item_rate'', JFloat (Finite (101 / 2))), (''item_quantity'', JInt 1)]"
  let ?p1 = "[(''page_no'', JStr ''1''), (''page_type'', JStr ''Bill Detail''),
              (''bill_items'', JArr [?a, ?b])]"
  let ?p2 = "[(''page_no'', JStr ''2''), (''page_type'', JStr ''Pharmacy''),
              (''bill_items'', JArr [?c])]"
  let ?okv = "[(''pagewise_line_items'', JArr [JObj ?p1, JObj ?p2]),
               (''document_final_total'', JFloat (dec 99999 (- 2)))]"
  let ?out = "\<lparr>extracted_data = bill_with (JStr ''N/A''), llm_token_usage = example_usage\<rparr>"
  have g1: "extracted_data ?out = JObj ?okv"
    by (simp add: bill_with_def)
  have g2: "map_of ?okv ''pagewise_line_items'' = Some (JArr [JObj ?p1, JObj ?p2])"
    by simp
  have g3: "JObj ?p2 \<in> set [JObj ?p1, JObj ?p2]"
    by simp
  have g4: "map_of ?p2 ''bill_items'' = Some (JArr [?c])"
    by simp
  have g5: "?c \<in> set [?c]"
    by simp
  have g6: "item_malformed ?c"
    by (simp add: not_numeric_examples)
  note first = malformed_item_rejects_whole_result [OF g1 g2 g3 g4 g5 g6]
  let ?it = "JObj [(''item_name'', JStr ''Syringe''), (''item_rate'', JFloat (Finite (25 / 2))),
                   (''item_quantity'', JInt 1)]"
  let ?pkv = "one_item_page (Some (JStr ''Pharmacy'')) None"
  let ?out' = "one_item_output (Some (JStr ''Pharmacy'')) None"
  let ?okv' = "[(''pagewise_line_items'', JArr [JObj ?pkv]),
                (''document_final_total'', JFloat (Finite (25 / 2)))]"
  have h1: "extracted_data ?out' = JObj ?okv'"
    by (simp add: one_item_output_def)
  have h2: "map_of ?okv' ''pagewise_line_items'' = Some (JArr [JObj ?pkv])"
    by simp
  have h3: "JObj ?pkv \<in> set [JObj ?pkv]"
    by simp
  have h4: "map_of ?pkv ''bill_items'' = Some (JArr [?it])"
    by (simp add: one_item_page_def)
  have h5: "?it \<in> set [?it]"
    by simp
  have h6: "item_malformed ?it"
    by simp
  from first malformed_item_rejects_whole_result [OF h1 h2 h3 h4 h5 h6] g6 h6
  show ?thesis by simp
qed

section \<open>The fetcher and the short circuits: the proofs\<close>

lemma range_3: "[0..<3] = [0, 1, 2]"
  by (simp add: upt_rec)

lemma build_payload_raises:
  "build_payload env mime_type base64_data = Inl (Raised ''TypeError'')"
  by (simp add: build_payload_def model_json_schema_def and_then_def)

lemma request_after_download:
  "API_KEY env \<noteq> [] \<Longrightarrow>
   extract_bill_data env url =
     ([EvGet url],
      case snd (download_file_to_base64 env url) of
        Inl e \<Rightarrow> Inl (to_http e)
      | Inr s \<Rightarrow> Inl (case split_mime s of
                         Inl e \<Rightarrow> to_http e
                       | Inr x \<Rightarrow> HTTPException 500 (Uncaught ''TypeError'')))"
  by (cases "download_file_to_base64 env url")
     (auto simp: extract_bill_data_def extract_data_with_llm_def build_payload_raises
        and_then_def download_file_to_base64_def split: sum.splits)

text \<open>
  C7. With an empty API key every request answers 500 with the missing-key detail, and
  the list of outbound events is empty: neither the GET of the document nor a POST to
  the model is made.
\<close>

theorem missing_api_key_short_circuit:
  "API_KEY env = [] \<Longrightarrow> extract_bill_data env url = ([], Inl (HTTPException 500 MissingApiKey))"
  by (simp add: extract_bill_data_def extract_data_with_llm_def)

theorem missing_api_key_short_circuit_witness:
  "API_KEY env_no_key = []
   \<and> extract_bill_data env_no_key example_url = ([], Inl (HTTPException 500 MissingApiKey))"
proof -
  have k: "API_KEY env_no_key = []"
    by (simp add: env_no_key_def)
  from missing_api_key_short_circuit [OF k] k show ?thesis by simp
qed

text \<open>
  C8, as the code has it. A fetched document whose response declares a content type is
  accepted exactly when that type starts with \<open>image/\<close> or starts with
  \<open>application/pdf\<close>. Any other declared type fails with the unsupported-type error as
  HTTP 400, and the request then ends with the GET as its only outbound event, so
  before any call of the model.
\<close>

theorem content_type_gate:
  assumes "http_get env url = GetReturns r"
    and "\<not> raises_for_status (get_status_code r)"
    and "content_type_header r = Some ct"
  shows "if startswith ct ''image/'' \<or> startswith ct ''application/pdf''
         then download_file_to_base64 env url
                = ([EvGet url], Inr (''data:'' @ ct @ '';base64,'' @ b64encode env (content r)))
         else download_file_to_base64 env url
                = ([EvGet url], Inl (HTTPException 400 (UnsupportedFileType ct)))
              \<and> (API_KEY env \<noteq> [] \<longrightarrow>
                   extract_bill_data env url
                     = ([EvGet url], Inl (HTTPException 400 (UnsupportedFileType ct))))"
  using assms by (auto simp: request_after_download download_file_to_base64_def)

theorem content_type_gate_witness:
  "download_file_to_base64 (env_serving (Some ''text/html'')) example_url
     = ([EvGet example_url], Inl (HTTPException 400 (UnsupportedFileType ''text/html'')))
   \<and> extract_bill_data (env_serving (Some ''text/html'')) example_url
     = ([EvGet example_url], Inl (HTTPException 400 (UnsupportedFileType ''text/html'')))
   \<and> download_file_to_base64 (env_serving (Some ''application/pdf'')) example_url
     = ([EvGet example_url], Inr ''data:application/pdf;base64,YWJj'')"
proof -
  have g: "http_get (env_serving c) example_url = GetReturns (document c)" for c
    by (simp add: env_serving_def example_env_def)
  have s: "\<not> raises_for_status (get_status_code (document c))" for c
    by (simp add: raises_for_status_def document_def)
  have h: "content_type_header (document (Some c)) = Some c" for c
    by (simp add: document_def)
  have k: "API_KEY (env_serving c) \<noteq> []" for c
    by (simp add: env_serving_def example_env_def)
  have b: "b64encode (env_serving c) (content (document c)) = ''YWJj''" for c
    by (simp add: env_serving_def example_env_def)
  have n: "\<not> (startswith ''text/html'' ''image/'' \<or> startswith ''text/html'' ''application/pdf'')"
    by (simp add: startswith_def)
  have p: "startswith ''application/pdf'' ''image/'' \<or> startswith ''application/pdf'' ''application/pdf''"
    by (simp add: startswith_def)
  from content_type_gate [OF g s h, of "''text/html''"] n k
  have 1: "download_file_to_base64 (env_serving (Some ''text/html'')) example_url
     = ([EvGet example_url], Inl (HTTPException 400 (UnsupportedFileType ''text/html'')))
   \<and> extract_bill_data (env_serving (Some ''text/html'')) example_url
     = ([EvGet example_url], Inl (HTTPException 400 (UnsupportedFileType ''text/html'')))"
    by simp
  from content_type_gate [OF g s h, of "''application/pdf''"] p b
  have 2: "download_file_to_base64 (env_serving (Some ''application/pdf'')) example_url
     = ([EvGet example_url], Inr ''data:application/pdf;base64,YWJj'')"
    by simp
  from 1 2 show ?thesis by simp
qed

text \<open>
  C8 as stated fails: a declared type that neither starts with \<open>image/\<close> nor is exactly
  \<open>application/pdf\<close> is accepted, because the test on the PDF type is a prefix test too.
\<close>

theorem other_pdf_prefixed_type_accepted:
  "\<not> startswith ''application/pdfx'' ''image/''
   \<and> ''application/pdfx'' \<noteq> ''application/pdf''
   \<and> download_file_to_base64 (env_serving (Some ''application/pdfx'')) example_url
     = ([EvGet example_url], Inr ''data:application/pdfx;base64,YWJj'')"
  by (simp add: download_file_to_base64_def env_serving_def example_env_def document_def
        raises_for_status_def startswith_def)

text \<open>
  C10. A fetched document whose response declares no content type at all is taken as
  \<open>image/jpeg\<close> and accepted.
\<close>

theorem absent_content_type_is_jpeg:
  assumes "http_get env url = GetReturns r"
    and "\<not> raises_for_status (get_status_code r)"
    and "content_type_header r = None"
  shows "download_file_to_base64 env url
           = ([EvGet url], Inr (''data:image/jpeg;base64,'' @ b64encode env (content r)))"
  using assms by (simp add: download_file_to_base64_def startswith_def)

theorem absent_content_type_is_jpeg_witness:
  "http_get (env_serving None) example_url = GetReturns (document None)
   \<and> content_type_header (document None) = None
   \<and> download_file_to_base64 (env_serving None) example_url
     = ([EvGet example_url], Inr ''data:image/jpeg;base64,YWJj'')"
proof -
  have g: "http_get (env_serving None) example_url = GetReturns (document None)"
    by (simp add: env_serving_def example_env_def)
  have s: "\<not> raises_for_status (get_status_code (document None))"
    by (simp add: raises_for_status_def document_def)
  have h: "content_type_header (document None) = None"
    by (simp add: document_def)
  have b: "b64encode (env_serving None) (content (document None)) = ''YWJj''"
    by (simp add: env_serving_def example_env_def)
  from absent_content_type_is_jpeg [OF g s h] g h b show ?thesis by simp
qed

section \<open>The retry loop: the proofs\<close>










lemma request_handler_last:
  "request_handler 3 2 response e \<noteq> Inl delay"
  by (simp add: request_handler_def split: option.splits sum.splits)

lemma attempt_step_last: "snd (attempt_step env 3 2 response) \<noteq> Inl delay"
  using request_handler_last
  by (auto simp: attempt_step_def split: post_outcome.splits sum.splits option.splits)

lemma getitem_key_raises: "getitem_key k v = Inl x \<Longrightarrow> \<exists>cls. x = Raised cls"
  by (cases v) (auto split: option.splits)

lemma getitem_0_raises: "getitem_0 v = Inl x \<Longrightarrow> \<exists>cls. x = Raised cls"
  by (induction v rule: getitem_0.induct) auto

lemma json_loads_raises: "json_loads parse v = Inl x \<Longrightarrow> \<exists>cls. x = Raised cls"
  by (cases v) (auto split: option.splits)

lemma extract_result_raises: "extract_result env result = Inl x \<Longrightarrow> \<exists>cls. x = Raised cls"
  by (auto simp: extract_result_def and_then_def Let_def split: sum.splits option.splits
      dest: getitem_key_raises getitem_0_raises json_loads_raises)

lemma dict_get_raises: "dict_get k dflt v = Inl x \<Longrightarrow> x = Raised ''AttributeError''"
  by (cases v) (auto split: option.splits)

lemma request_handler_no_exhaustion:
  "request_handler m a response e \<noteq> Inr (HTTPException 503 RetriesExhausted)"
  by (auto simp: request_handler_def split: option.splits sum.splits dest: dict_get_raises)

lemma attempt_step_no_exhaustion:
  "snd (attempt_step env m a response) \<noteq> Inr (Inl (HTTPException 503 RetriesExhausted))"
  using request_handler_no_exhaustion
  by (auto simp: attempt_step_def split: post_outcome.splits sum.splits option.splits
      dest!: extract_result_raises split: if_splits)

lemma snd_call_llm_Cons:
  "snd (call_llm env p m (a # rest) r) =
     (case attempt_step env m a r of
        (r', Inl delay) \<Rightarrow> snd (call_llm env p m rest r')
      | (r', Inr x) \<Rightarrow> x)"
  by (simp split: prod.splits sum.splits)

lemma call_llm_Cons_no_exhaustion:
  assumes "\<And>r'. snd (call_llm env p m rest r') \<noteq> Inl (HTTPException 503 RetriesExhausted)"
  shows "snd (call_llm env p m (a # rest) r) \<noteq> Inl (HTTPException 503 RetriesExhausted)"
proof (cases "attempt_step env m a r")
  case (Pair r' d)
  show ?thesis
  proof (cases d)
    case (Inl delay)
    with Pair assms [of r'] show ?thesis
      by (simp only: snd_call_llm_Cons prod.case sum.case) simp
  next
    case (Inr x)
    with Pair attempt_step_no_exhaustion [of env m a r] show ?thesis
      by (simp only: snd_call_llm_Cons prod.case sum.case) auto
  qed
qed

lemma call_llm_last_no_exhaustion:
  "snd (call_llm env p 3 [2] r) \<noteq> Inl (HTTPException 503 RetriesExhausted)"
proof (cases "attempt_step env 3 2 r")
  case (Pair r' d)
  show ?thesis
  proof (cases d)
    case (Inl delay)
    with Pair attempt_step_last [of env r delay] show ?thesis
      by simp
  next
    case (Inr x)
    with Pair attempt_step_no_exhaustion [of env 3 2 r] show ?thesis
      by (simp add: snd_call_llm_Cons)
  qed
qed

lemma line_167_unreachable:
  "snd (call_llm env p 3 [0..<3] None) \<noteq> Inl (HTTPException 503 RetriesExhausted)"
  unfolding range_3
  by (intro call_llm_Cons_no_exhaustion call_llm_last_no_exhaustion)

lemma step_always_429:
  "attempt_step env_always_429 3 n response =
     (Some rate_limited,
      if n < 2 then Inl (2 ^ n)
      else Inr (Inl (HTTPException 429 (LLMApiError (Inr (JStr ''Resource exhausted''))))))"
  by (simp add: attempt_step_def env_always_429_def example_env_def rate_limited_def
        raises_for_status_def request_handler_def)

lemma always_429_loop_alone:
  "call_llm env_always_429 p 3 [0..<3] None
     = ([EvPost p, EvSleep 1, EvPost p, EvSleep 2, EvPost p],
        Inl (HTTPException 429 (LLMApiError (Inr (JStr ''Resource exhausted'')))))"
  by (simp add: range_3 step_always_429)

lemma request_never_posts:
  "API_KEY env \<noteq> [] \<Longrightarrow> fst (extract_bill_data env url) = [EvGet url]"
  by (simp add: request_after_download)

lemma request_never_succeeds: "\<exists>e. snd (extract_bill_data env url) = Inl e"
proof (cases "API_KEY env = []")
  case True
  then show ?thesis by (simp add: extract_bill_data_def extract_data_with_llm_def)
next
  case False
  then show ?thesis by (simp add: request_after_download split: sum.splits)
qed

lemma example_download:
  "download_file_to_base64 example_env example_url
     = ([EvGet example_url], Inr ''data:image/png;base64,YWJj'')"
  by (simp add: download_file_to_base64_def example_env_def document_def raises_for_status_def
        startswith_def)

lemma example_split: "split_mime ''data:image/png;base64,YWJj'' = Inr (''image/png'', ''YWJj'')"
  by (simp add: split_mime_def before_def after_def)

text \<open>
  C5 fails on the code. With a key configured, a PNG document and a model service that
  would answer 429, 429 and then a valid result, the request answers 500: line 116 hands
  the dict of \<open>model_json_schema\<close> to \<^verbatim>\<open>json.loads\<close>, which raises TypeError before the
  first POST (\<open>build_payload_raises\<close>). The loop run alone on these answers does what the
  claim says (\<open>retry_loop_alone\<close>).
\<close>

theorem retry_then_succeed_request_fails:
  "extract_bill_data example_env example_url
     = ([EvGet example_url], Inl (HTTPException 500 (Uncaught ''TypeError'')))"
proof -
  have k: "API_KEY example_env \<noteq> []"
    by (simp add: example_env_def)
  show ?thesis
    by (simp add: request_after_download [OF k] example_download example_split)
qed

text \<open>
  C2 fails on the code. On three answers of 429 the loop sleeps 1 and 2 and, on the third,
  leaves through the handler of line 162 with the status of the answer, 429: line 167 with
  its 503 is never reached (\<open>line_167_unreachable\<close>). The request itself answers 500
  before the loop, as in C5.
\<close>

theorem always_429_is_not_503:
  "call_llm env_always_429 example_payload 3 [0..<3] None
     = ([EvPost example_payload, EvSleep 1, EvPost example_payload, EvSleep 2,
         EvPost example_payload],
        Inl (HTTPException 429 (LLMApiError (Inr (JStr ''Resource exhausted'')))))
   \<and> extract_bill_data env_always_429 example_url
     = ([EvGet example_url], Inl (HTTPException 500 (Uncaught ''TypeError'')))"
proof -
  have k: "API_KEY env_always_429 \<noteq> []"
    by (simp add: env_always_429_def example_env_def)
  have d: "download_file_to_base64 env_always_429 example_url
     = ([EvGet example_url], Inr ''data:image/png;base64,YWJj'')"
    by (simp add: download_file_to_base64_def env_always_429_def example_env_def document_def
          raises_for_status_def startswith_def)
  have r: "extract_bill_data env_always_429 example_url
     = ([EvGet example_url], Inl (HTTPException 500 (Uncaught ''TypeError'')))"
    by (simp add: request_after_download [OF k] d example_split)
  from always_429_loop_alone [of example_payload] r show ?thesis by simp
qed


end
